theory Spec2Isabelle
  imports Complex_Main
begin

section \<open>Errors and array access\<close>

text \<open>
  The exceptions the modelled Python can raise. Nothing in either source file catches an
  exception, so an error value returned by a model function is the exception leaving it.
\<close>

datatype py_error = NameError | IndexError | ValueError

text \<open>
  Reading entry \<open>i\<close> of an array with a non-negative index: out of range raises IndexError.
\<close>

definition getitem :: "'a list \<Rightarrow> nat \<Rightarrow> py_error + 'a" where
  "getitem xs i = (if i < length xs then Inr (xs ! i) else Inl IndexError)"

section \<open>The analytic reflection coefficient of validation-Bragg.py\<close>

text \<open>
  The script's arrays are complex floating-point arrays; the model computes with exact
  complex numbers (no rounding, no overflow), and \<open>/\<close> is the division of the field.
  A row holds one value per wavelength of the sweep \<open>lbda_list\<close>; \<open>kz\<close> and \<open>r_ab\<close> are
  two-dimensional, a list of rows indexed by the interface.  The module-level names
  \<open>N\<close>, \<open>n\<close>, \<open>d\<close> and \<open>lbda_list\<close> that ReflectionCoeff reads are parameters of the model.
\<close>

type_synonym row = "complex list"

text \<open>
  \<open>Kx = n[0]*np.sin(incidence_angle)\<close> and
  \<open>kz = 2*pi/lbda_list * np.sqrt(n**2-(Kx)**2)\<close>, where \<open>n\<close> has shape \<open>(len(n), 1)\<close> and
  \<open>lbda_list\<close> shape \<open>(W,)\<close>, so that \<open>kz\<close> has one row per entry of \<open>n\<close>.
\<close>

definition Kx_of :: "complex \<Rightarrow> real \<Rightarrow> complex" where
  "Kx_of n0 incidence_angle = n0 * complex_of_real (sin incidence_angle)"

definition kz_entry :: "complex \<Rightarrow> complex \<Rightarrow> real \<Rightarrow> complex" where
  "kz_entry Kx np l = complex_of_real (2 * pi / l) * csqrt (np\<^sup>2 - Kx\<^sup>2)"

definition kz_of :: "complex list \<Rightarrow> real list \<Rightarrow> complex \<Rightarrow> row list" where
  "kz_of n lbda_list Kx = map (\<lambda>np. map (\<lambda>l. kz_entry Kx np l) lbda_list) n"

text \<open>
  The two branches that bind \<open>r_ab\<close>.  \<open>kz[:-1]\<close> is \<open>butlast kz\<close>, \<open>kz[1:]\<close> is \<open>tl kz\<close>;
  \<open>-np.diff(kz, axis=0)\<close> is \<open>-(kz[1:] - kz[:-1])\<close>; the columns \<open>n[1:]\<close> and \<open>n[:-1]\<close>
  are broadcast along each row.
\<close>

definition r_ab_s :: "row list \<Rightarrow> row list" where
  "r_ab_s kz =
     map (\<lambda>(ka, kb). map (\<lambda>(x, y). (- (y - x)) / (x + y)) (zip ka kb))
         (zip (butlast kz) (tl kz))"

definition r_ab_p :: "row list \<Rightarrow> complex list \<Rightarrow> row list" where
  "r_ab_p kz n =
     map (\<lambda>((ka, kb), (na, nb)).
            map (\<lambda>(x, y). (x * nb\<^sup>2 - y * na\<^sup>2) / (x * nb\<^sup>2 + y * na\<^sup>2)) (zip ka kb))
         (zip (zip (butlast kz) (tl kz)) (zip (butlast n) (tl n)))"

text \<open>
  The \<open>if\<close>/\<open>elif\<close> on the polarisation has no \<open>else\<close>: for any other string the local
  name \<open>r_ab\<close> stays unbound, which is \<open>None\<close> here.
\<close>

definition r_ab_of :: "string \<Rightarrow> row list \<Rightarrow> complex list \<Rightarrow> row list option" where
  "r_ab_of polarisation kz n =
     (if polarisation = ''s'' then Some (r_ab_s kz)
      else if polarisation = ''p'' then Some (r_ab_p kz n)
      else None)"

text \<open>
  One step of the recursion, on rows of equal length (every row of \<open>kz\<close> and of \<open>r_ab\<close> has
  one entry per wavelength): \<open>(r + u*exp(2j*kzp*dp)) / (1 + r*u'*exp(2j*kzp*dp))\<close>, where \<open>u\<close>
  is the value of the call \<open>U(p)\<close> in the numerator and \<open>u'\<close> that of the call in the
  denominator.
\<close>

definition airy :: "row \<Rightarrow> row \<Rightarrow> row \<Rightarrow> row \<Rightarrow> real \<Rightarrow> row" where
  "airy r u u' kzp dp =
     map (\<lambda>(((rj, uj), uj'), kj).
            (rj + uj * exp (2 * \<i> * kj * complex_of_real dp))
            / (1 + rj * uj' * exp (2 * \<i> * kj * complex_of_real dp)))
         (zip (zip (zip r u) u') kzp)"

text \<open>
  The local function \<open>U\<close>, with \<open>k + 1\<close> written for its local \<open>p\<close>.  It reads \<open>r_ab\<close> first in
  both branches, which raises NameError when the name is unbound; \<open>r_ab[p-1]\<close> is evaluated
  before the recursive call, so an index past the end of \<open>r_ab\<close> raises IndexError before
  \<open>U(p)\<close> is entered.  The expression calls \<open>U(p)\<close> twice, in the numerator and in the
  denominator, in that order; the reads of \<open>r_ab[p-1]\<close>, \<open>kz[p]\<close> and \<open>d[p]\<close> in the denominator
  repeat reads that have succeeded.
\<close>

function U :: "nat \<Rightarrow> row list option \<Rightarrow> row list \<Rightarrow> real list \<Rightarrow> nat \<Rightarrow> py_error + row" where
  "U N r_ab kz d k =
     (if k + 1 = N then
        (case r_ab of None \<Rightarrow> Inl NameError | Some r \<Rightarrow> getitem r (N - 1))
      else
        (case r_ab of None \<Rightarrow> Inl NameError
         | Some r \<Rightarrow>
             if k < length r then
               (case U N r_ab kz d (k + 1) of
                  Inl e \<Rightarrow> Inl e
                | Inr u \<Rightarrow>
                    (case getitem kz (k + 1) of
                       Inl e \<Rightarrow> Inl e
                     | Inr kzp \<Rightarrow>
                         (case getitem d (k + 1) of
                            Inl e \<Rightarrow> Inl e
                          | Inr dp \<Rightarrow>
                              (case U N r_ab kz d (k + 1) of
                                 Inl e \<Rightarrow> Inl e
                               | Inr u' \<Rightarrow> Inr (airy (r ! k) u u' kzp dp)))))
             else Inl IndexError))"
  by pat_completeness auto
termination
  by (relation "measure (\<lambda>(N, r_ab, kz, d, k). (case r_ab of None \<Rightarrow> 0 | Some r \<Rightarrow> length r) - k)")
     auto

declare U.simps [simp del]

text \<open>
  The same function with a bound on the depth of the call stack: \<open>fuel\<close> is the number of
  frames of \<open>U\<close> that may be open at once, and \<open>None\<close> means that the bound was reached
  before the base case.  It is used to count the nested recursive calls; the depth limit of
  the Python interpreter itself is not part of the model.
\<close>

fun U_fuel :: "nat \<Rightarrow> nat \<Rightarrow> row list option \<Rightarrow> row list \<Rightarrow> real list \<Rightarrow> nat \<Rightarrow> (py_error + row) option" where
  "U_fuel 0 N r_ab kz d k = None"
| "U_fuel (Suc fuel) N r_ab kz d k =
     (if k + 1 = N then
        Some (case r_ab of None \<Rightarrow> Inl NameError | Some r \<Rightarrow> getitem r (N - 1))
      else
        (case r_ab of None \<Rightarrow> Some (Inl NameError)
         | Some r \<Rightarrow>
             if k < length r then
               (case U_fuel fuel N r_ab kz d (k + 1) of
                  None \<Rightarrow> None
                | Some (Inl e) \<Rightarrow> Some (Inl e)
                | Some (Inr u) \<Rightarrow>
                    (case getitem kz (k + 1) of
                       Inl e \<Rightarrow> Some (Inl e)
                     | Inr kzp \<Rightarrow>
                         (case getitem d (k + 1) of
                            Inl e \<Rightarrow> Some (Inl e)
                          | Inr dp \<Rightarrow>
                              (case U_fuel fuel N r_ab kz d (k + 1) of
                                 None \<Rightarrow> None
                               | Some (Inl e) \<Rightarrow> Some (Inl e)
                               | Some (Inr u') \<Rightarrow> Some (Inr (airy (r ! k) u u' kzp dp))))))
             else Some (Inl IndexError)))"

text \<open>
  ReflectionCoeff: \<open>n[0]\<close> is read first (IndexError on an empty \<open>n\<close>), then \<open>kz\<close> and
  \<open>r_ab\<close> are built and \<open>U(0)\<close> is returned.  The unused \<open>sinPhi = Kx/n\<close> raises nothing
  and is left out.
\<close>

definition ReflectionCoeff ::
  "nat \<Rightarrow> complex list \<Rightarrow> real list \<Rightarrow> real list \<Rightarrow> real \<Rightarrow> string \<Rightarrow> py_error + row" where
  "ReflectionCoeff N n d lbda_list incidence_angle polarisation =
     (case getitem n 0 of
        Inl e \<Rightarrow> Inl e
      | Inr n0 \<Rightarrow>
          (let Kx = Kx_of n0 incidence_angle;
               kz = kz_of n lbda_list Kx;
               r_ab = r_ab_of polarisation kz n
           in U N r_ab kz d 0))"

section \<open>The profile and plot utility of plotter.py\<close>

subsection \<open>Floating-point values with infinities\<close>

text \<open>
  A Python float is a finite number, \<open>float('inf')\<close>, its negative, or a NaN.  Finite values
  are exact reals here (no rounding, no overflow, no signed zero); the operations follow
  IEEE 754 on the other three.
\<close>

datatype pyfloat = Fin real | PInf | NInf | NaN

fun fl_neg :: "pyfloat \<Rightarrow> pyfloat" where
  "fl_neg (Fin a) = Fin (- a)"
| "fl_neg PInf = NInf"
| "fl_neg NInf = PInf"
| "fl_neg NaN = NaN"

fun fl_add :: "pyfloat \<Rightarrow> pyfloat \<Rightarrow> pyfloat" where
  "fl_add NaN _ = NaN"
| "fl_add _ NaN = NaN"
| "fl_add (Fin a) (Fin b) = Fin (a + b)"
| "fl_add PInf NInf = NaN"
| "fl_add NInf PInf = NaN"
| "fl_add PInf _ = PInf"
| "fl_add _ PInf = PInf"
| "fl_add NInf _ = NInf"
| "fl_add _ NInf = NInf"

fun fl_mul :: "pyfloat \<Rightarrow> pyfloat \<Rightarrow> pyfloat" where
  "fl_mul NaN _ = NaN"
| "fl_mul _ NaN = NaN"
| "fl_mul (Fin a) (Fin b) = Fin (a * b)"
| "fl_mul (Fin a) PInf = (if a = 0 then NaN else if 0 < a then PInf else NInf)"
| "fl_mul (Fin a) NInf = (if a = 0 then NaN else if 0 < a then NInf else PInf)"
| "fl_mul PInf (Fin b) = (if b = 0 then NaN else if 0 < b then PInf else NInf)"
| "fl_mul NInf (Fin b) = (if b = 0 then NaN else if 0 < b then NInf else PInf)"
| "fl_mul PInf PInf = PInf"
| "fl_mul PInf NInf = NInf"
| "fl_mul NInf PInf = NInf"
| "fl_mul NInf NInf = PInf"

fun fl_le :: "pyfloat \<Rightarrow> pyfloat \<Rightarrow> bool" where
  "fl_le NaN _ = False"
| "fl_le _ NaN = False"
| "fl_le NInf _ = True"
| "fl_le _ PInf = True"
| "fl_le (Fin a) (Fin b) = (a \<le> b)"
| "fl_le _ _ = False"

text \<open>\<open>np.min\<close> and \<open>np.max\<close> return NaN as soon as one entry is a NaN.\<close>

definition fl_min :: "pyfloat \<Rightarrow> pyfloat \<Rightarrow> pyfloat" where
  "fl_min a b = (if a = NaN \<or> b = NaN then NaN else if fl_le a b then a else b)"

definition fl_max :: "pyfloat \<Rightarrow> pyfloat \<Rightarrow> pyfloat" where
  "fl_max a b = (if a = NaN \<or> b = NaN then NaN else if fl_le a b then b else a)"

definition arr_min :: "pyfloat list \<Rightarrow> py_error + pyfloat" where
  "arr_min z = (case z of [] \<Rightarrow> Inl ValueError | x # xs \<Rightarrow> Inr (foldl fl_min x xs))"

definition arr_max :: "pyfloat list \<Rightarrow> py_error + pyfloat" where
  "arr_max z = (case z of [] \<Rightarrow> Inl ValueError | x # xs \<Rightarrow> Inr (foldl fl_max x xs))"

definition is_finite :: "pyfloat \<Rightarrow> bool" where
  "is_finite a = (case a of Fin _ \<Rightarrow> True | _ \<Rightarrow> False)"

text \<open>\<open>np.cumsum\<close>: the running sums, the first one being the first entry itself.\<close>

fun cumsum_from :: "pyfloat \<Rightarrow> pyfloat list \<Rightarrow> pyfloat list" where
  "cumsum_from acc [] = []"
| "cumsum_from acc (x # xs) = fl_add acc x # cumsum_from (fl_add acc x) xs"

definition cumsum :: "pyfloat list \<Rightarrow> pyfloat list" where
  "cumsum xs = (case xs of [] \<Rightarrow> [] | x # ys \<Rightarrow> x # cumsum_from x ys)"

subsection \<open>Materials, layers and structures\<close>

text \<open>
  The solver's classes are not part of this repository; plotter.py uses them through three
  capabilities only, which are the fields below: \<open>material.getTensor(lbda, unit)\<close>,
  \<open>L.getPermittivityProfile(lbda, unit)\<close> of an element \<open>L\<close> of \<open>structure.layers\<close> (a layer or
  a group of repeated layers, each expanding itself into its list of entries), and the
  three attributes of a structure.  A permittivity tensor is a 3 by 3 complex matrix, given
  by its rows, at the one wavelength \<open>lbda\<close> of the call.
\<close>

type_synonym vec3 = "complex \<times> complex \<times> complex"

type_synonym tensor = "vec3 \<times> vec3 \<times> vec3"

record material =
  getTensor :: "real \<Rightarrow> string \<Rightarrow> tensor"

record half_space =
  material :: material

record layer =
  layer_getPermittivityProfile :: "real \<Rightarrow> string \<Rightarrow> (pyfloat \<times> tensor) list"

record Structure =
  frontHalfSpace :: half_space
  layers :: "layer list"
  backHalfSpace :: half_space

text \<open>Python's \<open>sum(xss, [])\<close> on a list of lists: \<open>(([] + xs1) + xs2) + ...\<close>.\<close>

definition py_sum :: "'a list list \<Rightarrow> 'a list" where
  "py_sum xss = foldl (@) [] xss"

definition getPermittivityProfile :: "Structure \<Rightarrow> real \<Rightarrow> string \<Rightarrow> (pyfloat \<times> tensor) list" where
  "getPermittivityProfile structure lbda unit =
     (let layers' = py_sum (map (\<lambda>L. layer_getPermittivityProfile L lbda unit) (layers structure));
          front = (PInf, getTensor (material (frontHalfSpace structure)) lbda unit);
          back = (PInf, getTensor (material (backHalfSpace structure)) lbda unit)
      in py_sum [[front], layers', [back]])"

text \<open>
  The number of finite layers of a structure: what its layers and layer groups expand to,
  counted entry by entry.
\<close>

definition finite_layer_count :: "Structure \<Rightarrow> real \<Rightarrow> string \<Rightarrow> nat" where
  "finite_layer_count structure lbda unit =
     sum_list (map (\<lambda>L. length (layer_getPermittivityProfile L lbda unit)) (layers structure))"

text \<open>
  Modelled from the spec: the constant \<open>e_x\<close> of the module \<open>.math\<close> and the array types that
  give \<open>v.T * eps * v\<close> its meaning are not in the repository's sources.  The default
  direction is the first Cartesian axis, and \<open>(v.T * eps * v)[0, 0, 0]\<close> is the scalar
  \<open>v\<^sup>T \<epsilon> v\<close>.
\<close>

definition e_x :: vec3 where
  "e_x = (1, 0, 0)"

fun dot3 :: "vec3 \<Rightarrow> vec3 \<Rightarrow> complex" where
  "dot3 (a0, a1, a2) (b0, b1, b2) = a0 * b0 + a1 * b1 + a2 * b2"

fun quad_form :: "vec3 \<Rightarrow> tensor \<Rightarrow> complex" where
  "quad_form v (r0, r1, r2) = dot3 v (dot3 r0 v, dot3 r1 v, dot3 r2 v)"

definition isotropic_tensor :: "complex \<Rightarrow> tensor" where
  "isotropic_tensor index = ((index\<^sup>2, 0, 0), (0, index\<^sup>2, 0), (0, 0, index\<^sup>2))"

text \<open>
  getIndexProfile: \<open>sqrt\<close> is \<open>numpy.lib.scimath.sqrt\<close>, on a complex argument the principal
  square root, which is \<open>csqrt\<close>.  The profile always has the two half-space entries, so
  the unzip into \<open>(h, epsilon)\<close> cannot fail.
\<close>

definition getIndexProfile :: "Structure \<Rightarrow> real \<Rightarrow> string \<Rightarrow> vec3 \<Rightarrow> (pyfloat \<times> complex) list" where
  "getIndexProfile structure lbda unit v =
     (let profile = getPermittivityProfile structure lbda unit;
          h = map fst profile;
          epsilon = map snd profile;
          n = map (\<lambda>eps. csqrt (quad_form v eps)) epsilon
      in zip h n)"

subsection \<open>Drawing\<close>

text \<open>
  What the plotting library is asked to draw is recorded in the value that stands for the
  Axes object: the artist (the step plot of \<open>n.real\<close> against \<open>z\<close>, or the pseudo-colour
  mesh), the labels and the range of the depth axis.  \<open>set_xlim\<close> refuses a limit that is
  not finite with a ValueError.  The two helpers are \<open>_drawStructureGraph\<close> and
  \<open>_drawStructureSection\<close> in the source.
\<close>

datatype artist = Step "pyfloat list" "real list" | PcolorMesh "pyfloat list" "real list"

record axes =
  drawn :: artist
  xlabel :: string
  ylabel :: "string option"
  xlim :: "pyfloat \<times> pyfloat"

definition set_xlim :: "pyfloat list \<Rightarrow> py_error + pyfloat \<times> pyfloat" where
  "set_xlim z =
     (case arr_min z of
        Inl e \<Rightarrow> Inl e
      | Inr lo \<Rightarrow>
          (case arr_max z of
             Inl e \<Rightarrow> Inl e
           | Inr hi \<Rightarrow> if is_finite lo \<and> is_finite hi then Inr (lo, hi) else Inl ValueError))"

definition drawStructureGraph ::
  "Structure \<Rightarrow> pyfloat list \<Rightarrow> complex list \<Rightarrow> string \<Rightarrow> py_error + axes" where
  "drawStructureGraph structure z n unit =
     (case n of
        [] \<Rightarrow> Inl IndexError
      | _ # _ \<Rightarrow>
          (let n' = n @ [last n]
           in case set_xlim z of
                Inl e \<Rightarrow> Inl e
              | Inr limits \<Rightarrow>
                  Inr \<lparr>drawn = Step z (map Re n'),
                       xlabel = ''z ('' @ unit @ '')'',
                       ylabel = Some (''n'' @ [CHR 0x27]),
                       xlim = limits\<rparr>))"

definition drawStructureSection ::
  "Structure \<Rightarrow> pyfloat list \<Rightarrow> complex list \<Rightarrow> string \<Rightarrow> py_error + axes" where
  "drawStructureSection structure z n unit =
     (case set_xlim z of
        Inl e \<Rightarrow> Inl e
      | Inr limits \<Rightarrow>
          Inr \<lparr>drawn = PcolorMesh z (map Re n),
               xlabel = ''z ('' @ unit @ '')'',
               ylabel = None,
               xlim = limits\<rparr>)"

text \<open>
  The depth coordinates of drawStructure: \<open>h[1:-1]\<close> is \<open>butlast (tl h)\<close>, \<open>z_layers[-1]\<close> is
  the last entry of an array that always starts with \<open>0.\<close>
\<close>

definition z_layers_of :: "pyfloat list \<Rightarrow> pyfloat list" where
  "z_layers_of h = Fin 0 # cumsum (butlast (tl h))"

definition z_margin_of :: "pyfloat \<Rightarrow> pyfloat \<Rightarrow> pyfloat" where
  "z_margin_of margin z_max = (if z_max \<noteq> Fin 0 then fl_mul margin z_max else Fin (1 / 10 ^ 6))"

definition z_of :: "pyfloat list \<Rightarrow> pyfloat \<Rightarrow> pyfloat list" where
  "z_of h margin =
     (let z_layers = z_layers_of h;
          z_max = last z_layers;
          z_margin = z_margin_of margin z_max
      in fl_neg z_margin # z_layers @ [fl_add z_max z_margin])"

definition drawStructure ::
  "Structure \<Rightarrow> real \<Rightarrow> string \<Rightarrow> string \<Rightarrow> pyfloat \<Rightarrow> py_error + axes option" where
  "drawStructure structure lbda unit method margin =
     (let profile = getIndexProfile structure lbda unit e_x;
          h = map fst profile;
          n = map snd profile;
          z = z_of h margin
      in if method = ''graph'' then
           (case drawStructureGraph structure z n unit of Inl e \<Rightarrow> Inl e | Inr ax \<Rightarrow> Inr (Some ax))
         else if method = ''section'' then
           (case drawStructureSection structure z n unit of Inl e \<Rightarrow> Inl e | Inr ax \<Rightarrow> Inr (Some ax))
         else Inr None)"

text \<open>The default arguments \<open>lbda=1000, unit='nm', method="graph", margin=0.15\<close>.\<close>

definition default_margin :: pyfloat where
  "default_margin = Fin (15 / 100)"

subsection \<open>Stand-ins for the solver's materials and layers\<close>

text \<open>
  Modelled from the spec: the solver's classes IsotropicMaterial, DispersionLess and Layer
  are not in the repository's sources.  An isotropic dispersion-less material has the
  tensor \<open>index\<^sup>2\<close> times the identity at every wavelength and unit; a layer pairs a material
  with a thickness and expands to the one entry of its profile.  They build the concrete
  structures on which the theorems below are instantiated.
\<close>

definition IsotropicMaterial :: "complex \<Rightarrow> material" where
  "IsotropicMaterial index = \<lparr>getTensor = (\<lambda>lbda unit. isotropic_tensor index)\<rparr>"

definition Layer :: "material \<Rightarrow> real \<Rightarrow> layer" where
  "Layer m thickness =
     \<lparr>layer_getPermittivityProfile = (\<lambda>lbda unit. [(Fin thickness, getTensor m lbda unit)])\<rparr>"

definition Structure :: "material \<Rightarrow> layer list \<Rightarrow> material \<Rightarrow> Structure" where
  "Structure front ls back =
     \<lparr>frontHalfSpace = \<lparr>material = front\<rparr>, layers = ls, backHalfSpace = \<lparr>material = back\<rparr>\<rparr>"

section \<open>The comparison chart of validation-Bragg.py\<close>

text \<open>
  The six reflectance curves of the script, by the names of its variables: the \<open>R_th_*\<close>
  are the squared magnitudes of ReflectionCoeff (the analytic formula), the others are read
  from the result of the solver's \<open>evaluate\<close>.
\<close>

datatype curve = R_ss_0 | R_ss | R_pp | R_th_ss_0 | R_th_ss | R_th_pp

datatype origin = Analytic | Solver

fun origin_of :: "curve \<Rightarrow> origin" where
  "origin_of R_ss_0 = Solver"
| "origin_of R_ss = Solver"
| "origin_of R_pp = Solver"
| "origin_of R_th_ss_0 = Analytic"
| "origin_of R_th_ss = Analytic"
| "origin_of R_th_pp = Analytic"

text \<open>
  \<open>ax.plot(x, ys)\<close> and \<open>ax.plot(x, ys, fmt)\<close> return one line object per column of \<open>ys\<close>.
  Without a format string a line is drawn solid with no marker.  Of the format strings,
  the line-style characters \<open>-\<close> and \<open>:\<close> and the marker characters \<open>x\<close>, \<open>+\<close>, \<open>o\<close> and
  \<open>*\<close> are modelled; a format that names a marker and no line style draws the markers
  only.
\<close>

record line2d =
  ydata :: curve
  xdata :: "real list"
  linestyle :: string
  marker :: string

definition fmt_style :: "string \<Rightarrow> string \<times> string" where
  "fmt_style fmt =
     (let ls = filter (\<lambda>c. c \<in> set ''-:'') fmt;
          mk = filter (\<lambda>c. c \<in> set ''x+o*'') fmt
      in (if ls \<noteq> [] then ls else if mk = [] then ''-'' else ''None'',
          if mk = [] then ''None'' else mk))"

definition plot :: "real list \<Rightarrow> curve list \<Rightarrow> string option \<Rightarrow> line2d list" where
  "plot x ys fmt =
     map (\<lambda>y. case fmt of
                 None \<Rightarrow> \<lparr>ydata = y, xdata = x, linestyle = ''-'', marker = ''None''\<rparr>
               | Some f \<Rightarrow> \<lparr>ydata = y, xdata = x, linestyle = fst (fmt_style f),
                            marker = snd (fmt_style f)\<rparr>)
         ys"

text \<open>The lines of the chart, in the order \<open>lines1 + lines2\<close> in which the legend lists them.\<close>

definition comparison_chart :: "real list \<Rightarrow> line2d list" where
  "comparison_chart lbda_list =
     (let lines1 = plot lbda_list [R_ss_0, R_ss, R_pp] None;
          lines2 = plot lbda_list [R_th_ss_0, R_th_ss, R_th_pp] (Some ''x'')
      in lines1 @ lines2)"

definition is_line_plot :: "line2d \<Rightarrow> bool" where
  "is_line_plot l = (linestyle l \<noteq> ''None'' \<and> marker l = ''None'')"

definition is_marker_points :: "line2d \<Rightarrow> bool" where
  "is_marker_points l = (linestyle l = ''None'' \<and> marker l \<noteq> ''None'')"

section \<open>Properties of the analytic reflection coefficient\<close>

subsection \<open>Shapes of the arrays\<close>

lemma length_kz_of: "length (kz_of n lbda_list Kx) = length n"
  by (simp add: kz_of_def)

lemma length_kz_row: "p < length n \<Longrightarrow> length (kz_of n lbda_list Kx ! p) = length lbda_list"
  by (simp add: kz_of_def)

lemma kz_of_nth:
  "p < length n \<Longrightarrow> j < length lbda_list \<Longrightarrow>
   kz_of n lbda_list Kx ! p ! j = kz_entry Kx (n ! p) (lbda_list ! j)"
  by (simp add: kz_of_def)

lemma length_r_ab_s: "length (r_ab_s kz) = length kz - 1"
  by (simp add: r_ab_s_def)

lemma length_r_ab_p: "length (r_ab_p kz n) = min (length kz - 1) (length n - 1)"
  by (simp add: r_ab_p_def)

lemma r_ab_s_row:
  "p + 1 < length kz \<Longrightarrow>
   r_ab_s kz ! p = map (\<lambda>(x, y). (- (y - x)) / (x + y)) (zip (kz ! p) (kz ! (p + 1)))"
  by (simp add: r_ab_s_def nth_butlast nth_tl)

lemma r_ab_p_row:
  "p + 1 < length kz \<Longrightarrow> p + 1 < length n \<Longrightarrow>
   r_ab_p kz n ! p =
     map (\<lambda>(x, y). (x * (n ! (p + 1))\<^sup>2 - y * (n ! p)\<^sup>2) / (x * (n ! (p + 1))\<^sup>2 + y * (n ! p)\<^sup>2))
         (zip (kz ! p) (kz ! (p + 1)))"
proof -
  assume a: "p + 1 < length kz" "p + 1 < length n"
  let ?zs = "zip (zip (butlast kz) (tl kz)) (zip (butlast n) (tl n))"
  have len: "p < length ?zs" using a by auto
  have el: "?zs ! p = ((kz ! p, kz ! (p + 1)), (n ! p, n ! (p + 1)))"
    using a by (simp add: nth_butlast nth_tl)
  show ?thesis
    unfolding r_ab_p_def using len el by (simp del: length_zip)
qed

lemma airy_nth:
  "j < length r \<Longrightarrow> j < length u \<Longrightarrow> j < length kzp \<Longrightarrow>
   airy r u u kzp dp ! j =
     (r ! j + u ! j * exp (2 * \<i> * (kzp ! j) * complex_of_real dp))
     / (1 + r ! j * u ! j * exp (2 * \<i> * (kzp ! j) * complex_of_real dp))"
  by (simp add: airy_def)

lemma length_airy: "length (airy r u u kzp dp) = min (min (length r) (length u)) (length kzp)"
  by (simp add: airy_def)

lemma length_r_ab_s_row:
  "p + 1 < length kz \<Longrightarrow> length (r_ab_s kz ! p) = min (length (kz ! p)) (length (kz ! (p + 1)))"
  by (simp add: r_ab_s_row)

lemma length_r_ab_p_row:
  "p + 1 < length kz \<Longrightarrow> p + 1 < length n \<Longrightarrow>
   length (r_ab_p kz n ! p) = min (length (kz ! p)) (length (kz ! (p + 1)))"
  by (simp add: r_ab_p_row)

lemma U_base:
  "k + 1 = N \<Longrightarrow> U N (Some r) kz d k = getitem r (N - 1)"
  by (subst U.simps) simp

lemma U_step:
  "k + 1 \<noteq> N \<Longrightarrow> k < length r \<Longrightarrow> k + 1 < length kz \<Longrightarrow> k + 1 < length d \<Longrightarrow>
   U N (Some r) kz d (k + 1) = Inr u \<Longrightarrow>
   U N (Some r) kz d k = Inr (airy (r ! k) u u (kz ! (k + 1)) (d ! (k + 1)))"
  by (subst U.simps) (simp add: getitem_def)

lemma U_unbound: "U N None kz d k = Inl NameError"
  by (subst U.simps) simp

lemma U_value:
  assumes "length r = N" and "length kz = N + 1" and "length d = N + 1"
    and "\<forall>p<N. length (r ! p) = W" and "\<forall>p\<le>N. length (kz ! p) = W"
  shows "k < N \<Longrightarrow> \<exists>u. U N (Some r) kz d k = Inr u \<and> length u = W"
proof (induction "N - k" arbitrary: k)
  case 0
  then show ?case by simp
next
  case (Suc m)
  show ?case
  proof (cases "k + 1 = N")
    case True
    with assms Suc.prems show ?thesis
      by (simp add: U_base getitem_def)
  next
    case False
    with Suc.prems have lt: "k + 1 < N" by simp
    from Suc.hyps(2) have "m = N - (k + 1)" by simp
    from Suc.hyps(1) [OF this lt] obtain u
      where u: "U N (Some r) kz d (k + 1) = Inr u" and lu: "length u = W" by blast
    have "U N (Some r) kz d k = Inr (airy (r ! k) u u (kz ! (k + 1)) (d ! (k + 1)))"
      using False lt assms(1-3) u by (intro U_step) simp_all
    moreover have "length (airy (r ! k) u u (kz ! (k + 1)) (d ! (k + 1))) = W"
      using assms(4,5) lt lu by (simp add: length_airy)
    ultimately show ?thesis by simp
  qed
qed

lemma U_fuel_enough:
  assumes "length r = N"
  shows "k < N \<Longrightarrow> U_fuel (N - k) N (Some r) kz d k = Some (U N (Some r) kz d k)"
proof (induction "N - k" arbitrary: k)
  case 0
  then show ?case by simp
next
  case (Suc m)
  from Suc.hyps(2) have fuel: "N - k = Suc m" by simp
  show ?case
  proof (cases "k + 1 = N")
    case True
    then show ?thesis
      unfolding fuel by (simp add: U_base)
  next
    case False
    with Suc.prems have lt: "k + 1 < N" by simp
    from Suc.hyps(2) have m: "m = N - (k + 1)" by simp
    have ih: "U_fuel m N (Some r) kz d (k + 1) = Some (U N (Some r) kz d (k + 1))"
      using Suc.hyps(1) [OF m lt] m by simp
    have kr: "k < length r" using assms lt by simp
    show ?thesis
      unfolding fuel using False kr ih
      by (subst U.simps) (simp split: sum.splits)
  qed
qed

lemma U_fuel_short:
  assumes "length r = N"
  shows "fuel + k < N \<Longrightarrow> U_fuel fuel N (Some r) kz d k = None"
proof (induction fuel arbitrary: k)
  case 0
  then show ?case by simp
next
  case (Suc fuel)
  from Suc.prems have "fuel + (k + 1) < N" by simp
  from Suc.IH [OF this] have "U_fuel fuel N (Some r) kz d (k + 1) = None" .
  moreover have "k + 1 \<noteq> N" "k < length r" using Suc.prems assms by simp_all
  ultimately show ?case by simp
qed

subsection \<open>The claims about ReflectionCoeff\<close>

lemma ReflectionCoeff_unfold:
  "n \<noteq> [] \<Longrightarrow>
   ReflectionCoeff N n d lbda_list incidence_angle polarisation =
     U N (r_ab_of polarisation (kz_of n lbda_list (Kx_of (n ! 0) incidence_angle)) n)
         (kz_of n lbda_list (Kx_of (n ! 0) incidence_angle)) d 0"
  by (simp add: ReflectionCoeff_def getitem_def Let_def)

lemma r_ab_shape:
  assumes "length n = N + 1" and "polarisation = ''s'' \<or> polarisation = ''p''"
  shows "\<exists>r. r_ab_of polarisation (kz_of n lbda_list Kx) n = Some r \<and> length r = N \<and>
             (\<forall>p<N. length (r ! p) = length lbda_list)"
proof -
  let ?kz = "kz_of n lbda_list Kx"
  have lk: "length ?kz = N + 1" using assms(1) by (simp add: length_kz_of)
  have rows: "\<And>p. p \<le> N \<Longrightarrow> length (?kz ! p) = length lbda_list"
    using assms(1) by (simp add: length_kz_row)
  from assms(2) show ?thesis
  proof
    assume s: "polarisation = ''s''"
    have "length (r_ab_s ?kz) = N" using lk by (simp add: length_r_ab_s)
    moreover have "\<forall>p<N. length (r_ab_s ?kz ! p) = length lbda_list"
      using lk rows by (simp add: length_r_ab_s_row)
    ultimately show ?thesis using s by (simp add: r_ab_of_def)
  next
    assume p: "polarisation = ''p''"
    have "length (r_ab_p ?kz n) = N" using lk assms(1) by (simp add: length_r_ab_p)
    moreover have "\<forall>p<N. length (r_ab_p ?kz n ! p) = length lbda_list"
      using lk rows assms(1) by (simp add: length_r_ab_p_row)
    ultimately show ?thesis using p by (simp add: r_ab_of_def)
  qed
qed

text \<open>
  Claim C1.  With \<open>N + 1\<close> indices and thicknesses and a polarisation \<open>s\<close> or \<open>p\<close>,
  ReflectionCoeff returns \<open>U(0)\<close>, and for every \<open>k < N\<close> the call \<open>U(k)\<close> returns a row
  with one entry per wavelength: the row \<open>r_ab[N-1]\<close> when \<open>k + 1 = N\<close>, and otherwise,
  at every wavelength, \<open>(r_ab[k] + U(k+1)*exp(2i*kz[k+1]*d[k+1])) /
  (1 + r_ab[k]*U(k+1)*exp(2i*kz[k+1]*d[k+1]))\<close>.
\<close>

theorem U_recurrence:
  assumes "length n = N + 1" and "length d = N + 1"
    and "polarisation = ''s'' \<or> polarisation = ''p''" and "k < N"
  shows "let kz = kz_of n lbda_list (Kx_of (n ! 0) incidence_angle);
             r_ab = r_ab_of polarisation kz n
         in ReflectionCoeff N n d lbda_list incidence_angle polarisation = U N r_ab kz d 0 \<and>
            (\<exists>r u. r_ab = Some r \<and> U N r_ab kz d k = Inr u \<and> length u = length lbda_list \<and>
               (k + 1 = N \<longrightarrow> u = r ! (N - 1)) \<and>
               (k + 1 \<noteq> N \<longrightarrow>
                  (\<exists>u'. U N r_ab kz d (k + 1) = Inr u' \<and>
                     (\<forall>j<length lbda_list.
                        u ! j =
                          (r ! k ! j + u' ! j * exp (2 * \<i> * (kz ! (k + 1) ! j) * complex_of_real (d ! (k + 1))))
                          / (1 + r ! k ! j * u' ! j
                                 * exp (2 * \<i> * (kz ! (k + 1) ! j) * complex_of_real (d ! (k + 1))))))))"
proof -
  let ?kz = "kz_of n lbda_list (Kx_of (n ! 0) incidence_angle)"
  let ?W = "length lbda_list"
  from assms(1) have ne: "n \<noteq> []" by auto
  obtain r where r: "r_ab_of polarisation ?kz n = Some r" and lr: "length r = N"
    and rrows: "\<forall>p<N. length (r ! p) = ?W"
    using r_ab_shape [OF assms(1,3)] by blast
  have lk: "length ?kz = N + 1" using assms(1) by (simp add: length_kz_of)
  have krows: "\<forall>p\<le>N. length (?kz ! p) = ?W"
    using assms(1) by (simp add: length_kz_row)
  note val = U_value [OF lr lk assms(2) rrows krows]
  from val [OF assms(4)] obtain u
    where u: "U N (Some r) ?kz d k = Inr u" and lu: "length u = ?W" by blast
  have base: "k + 1 = N \<longrightarrow> u = r ! (N - 1)"
  proof
    assume "k + 1 = N"
    then have "U N (Some r) ?kz d k = getitem r (N - 1)" by (rule U_base)
    with u lr assms(4) show "u = r ! (N - 1)" by (simp add: getitem_def)
  qed
  have step: "k + 1 \<noteq> N \<longrightarrow>
       (\<exists>u'. U N (Some r) ?kz d (k + 1) = Inr u' \<and>
          (\<forall>j<?W. u ! j =
              (r ! k ! j + u' ! j * exp (2 * \<i> * (?kz ! (k + 1) ! j) * complex_of_real (d ! (k + 1))))
              / (1 + r ! k ! j * u' ! j
                     * exp (2 * \<i> * (?kz ! (k + 1) ! j) * complex_of_real (d ! (k + 1))))))"
  proof
    assume nb: "k + 1 \<noteq> N"
    with assms(4) have lt: "k + 1 < N" by simp
    from val [OF lt] obtain u'
      where u': "U N (Some r) ?kz d (k + 1) = Inr u'" and lu': "length u' = ?W" by blast
    have "U N (Some r) ?kz d k = Inr (airy (r ! k) u' u' (?kz ! (k + 1)) (d ! (k + 1)))"
      using nb lt lr lk assms(2) u' by (intro U_step) simp_all
    with u have ueq: "u = airy (r ! k) u' u' (?kz ! (k + 1)) (d ! (k + 1))" by simp
    have "\<forall>j<?W. u ! j =
              (r ! k ! j + u' ! j * exp (2 * \<i> * (?kz ! (k + 1) ! j) * complex_of_real (d ! (k + 1))))
              / (1 + r ! k ! j * u' ! j
                     * exp (2 * \<i> * (?kz ! (k + 1) ! j) * complex_of_real (d ! (k + 1))))"
      unfolding ueq using rrows krows lt lu' by (simp add: airy_nth)
    with u' show "\<exists>u'. U N (Some r) ?kz d (k + 1) = Inr u' \<and>
          (\<forall>j<?W. u ! j =
              (r ! k ! j + u' ! j * exp (2 * \<i> * (?kz ! (k + 1) ! j) * complex_of_real (d ! (k + 1))))
              / (1 + r ! k ! j * u' ! j
                     * exp (2 * \<i> * (?kz ! (k + 1) ! j) * complex_of_real (d ! (k + 1)))))"
      by blast
  qed
  have "ReflectionCoeff N n d lbda_list incidence_angle polarisation = U N (Some r) ?kz d 0"
    using ReflectionCoeff_unfold [OF ne] r by simp
  with r u lu base step show ?thesis
    unfolding Let_def by (simp only: option.inject) blast
qed

theorem U_recurrence_witness:
  "let kz = kz_of [1, 2, 3] [1] (Kx_of ([1, 2, 3] ! 0) 0);
       r_ab = r_ab_of ''s'' kz [1, 2, 3]
   in ReflectionCoeff 2 [1, 2, 3] [1, 1, 1] [1] 0 ''s'' = U 2 r_ab kz [1, 1, 1] 0 \<and>
      (\<exists>r u. r_ab = Some r \<and> U 2 r_ab kz [1, 1, 1] 0 = Inr u \<and> length u = length [1::real] \<and>
         (0 + 1 = (2::nat) \<longrightarrow> u = r ! (2 - 1)) \<and>
         (0 + 1 \<noteq> (2::nat) \<longrightarrow>
            (\<exists>u'. U 2 r_ab kz [1, 1, 1] (0 + 1) = Inr u' \<and>
               (\<forall>j<length [1::real].
                  u ! j =
                    (r ! 0 ! j + u' ! j * exp (2 * \<i> * (kz ! (0 + 1) ! j) * complex_of_real ([1, 1, 1] ! (0 + 1))))
                    / (1 + r ! 0 ! j * u' ! j
                           * exp (2 * \<i> * (kz ! (0 + 1) ! j) * complex_of_real ([1, 1, 1] ! (0 + 1))))))))"
proof -
  have h1: "length [1, 2, 3 :: complex] = 2 + 1" by simp
  have h2: "length [1, 1, 1 :: real] = 2 + 1" by simp
  have h3: "''s'' = ''s'' \<or> ''s'' = ''p''" by simp
  have h4: "(0::nat) < 2" by simp
  show ?thesis by (rule U_recurrence [OF h1 h2 h3 h4])
qed

text \<open>
  Claim C2.  For the polarisation \<open>p\<close>, ReflectionCoeff binds \<open>r_ab\<close> to one row per interface
  and returns \<open>U(0)\<close> computed from it; the entry of \<open>r_ab\<close> for the interface between \<open>p\<close>
  and \<open>p + 1\<close> at wavelength \<open>j\<close> is
  \<open>(kz[p]*n[p+1]^2 - kz[p+1]*n[p]^2) / (kz[p]*n[p+1]^2 + kz[p+1]*n[p]^2)\<close>, for every
  interface, incidence angle and wavelength of the sweep.  With a single interface
  (\<open>N = 1\<close>) that row of coefficients is the value ReflectionCoeff returns.
\<close>

theorem r_ab_p_formula:
  assumes "p + 1 < length n" and "j < length lbda_list"
  shows "let kz = kz_of n lbda_list (Kx_of (n ! 0) incidence_angle)
         in ReflectionCoeff N n d lbda_list incidence_angle ''p''
              = U N (Some (r_ab_p kz n)) kz d 0 \<and>
            (N = 1 \<longrightarrow>
               ReflectionCoeff N n d lbda_list incidence_angle ''p'' = Inr (r_ab_p kz n ! 0)) \<and>
            r_ab_of ''p'' kz n = Some (r_ab_p kz n) \<and>
            length (r_ab_p kz n) = length n - 1 \<and>
            length (r_ab_p kz n ! p) = length lbda_list \<and>
            r_ab_p kz n ! p ! j =
              (kz ! p ! j * (n ! (p + 1))\<^sup>2 - kz ! (p + 1) ! j * (n ! p)\<^sup>2)
              / (kz ! p ! j * (n ! (p + 1))\<^sup>2 + kz ! (p + 1) ! j * (n ! p)\<^sup>2)"
proof -
  let ?kz = "kz_of n lbda_list (Kx_of (n ! 0) incidence_angle)"
  from assms(1) have ne: "n \<noteq> []" by auto
  have lk: "p + 1 < length ?kz" using assms(1) by (simp add: length_kz_of)
  have la: "length (?kz ! p) = length lbda_list"
    and lb: "length (?kz ! (p + 1)) = length lbda_list"
    using assms(1) by (simp_all add: length_kz_row)
  have bound: "r_ab_of ''p'' ?kz n = Some (r_ab_p ?kz n)" by (simp add: r_ab_of_def)
  have len: "length (r_ab_p ?kz n) = length n - 1"
    by (simp add: length_r_ab_p length_kz_of)
  have ret: "ReflectionCoeff N n d lbda_list incidence_angle ''p''
               = U N (Some (r_ab_p ?kz n)) ?kz d 0"
    using ReflectionCoeff_unfold [OF ne, of N d lbda_list incidence_angle "''p''"] bound
    by simp
  have single: "N = 1 \<longrightarrow>
      ReflectionCoeff N n d lbda_list incidence_angle ''p'' = Inr (r_ab_p ?kz n ! 0)"
  proof
    assume N: "N = 1"
    have "U N (Some (r_ab_p ?kz n)) ?kz d 0 = getitem (r_ab_p ?kz n) (N - 1)"
      by (rule U_base) (simp add: N)
    also have "\<dots> = Inr (r_ab_p ?kz n ! 0)"
      using assms(1) by (simp add: N getitem_def len)
    finally show "ReflectionCoeff N n d lbda_list incidence_angle ''p'' = Inr (r_ab_p ?kz n ! 0)"
      using ret by simp
  qed
  have rowlen: "length (r_ab_p ?kz n ! p) = length lbda_list"
    using lk assms(1) la lb by (simp add: length_r_ab_p_row)
  have entry: "r_ab_p ?kz n ! p ! j =
              (?kz ! p ! j * (n ! (p + 1))\<^sup>2 - ?kz ! (p + 1) ! j * (n ! p)\<^sup>2)
              / (?kz ! p ! j * (n ! (p + 1))\<^sup>2 + ?kz ! (p + 1) ! j * (n ! p)\<^sup>2)"
    using lk assms la lb by (simp add: r_ab_p_row)
  from ret single bound len rowlen entry show ?thesis unfolding Let_def by blast
qed

theorem r_ab_p_formula_witness:
  "let kz = kz_of [1, 2] [1100, 2500] (Kx_of ([1, 2] ! 0) (pi / 4))
   in ReflectionCoeff 1 [1, 2] [1, 1] [1100, 2500] (pi / 4) ''p''
        = U 1 (Some (r_ab_p kz [1, 2])) kz [1, 1] 0 \<and>
      ReflectionCoeff 1 [1, 2] [1, 1] [1100, 2500] (pi / 4) ''p'' = Inr (r_ab_p kz [1, 2] ! 0) \<and>
      r_ab_of ''p'' kz [1, 2] = Some (r_ab_p kz [1, 2]) \<and>
      length (r_ab_p kz [1, 2]) = length [1, 2 :: complex] - 1 \<and>
      length (r_ab_p kz [1, 2] ! 0) = length [1100, 2500 :: real] \<and>
      r_ab_p kz [1, 2] ! 0 ! 1 =
        (kz ! 0 ! 1 * ([1, 2] ! (0 + 1))\<^sup>2 - kz ! (0 + 1) ! 1 * ([1, 2] ! 0)\<^sup>2)
        / (kz ! 0 ! 1 * ([1, 2] ! (0 + 1))\<^sup>2 + kz ! (0 + 1) ! 1 * ([1, 2] ! 0)\<^sup>2)"
proof -
  have h1: "0 + 1 < length [1, 2 :: complex]" by simp
  have h2: "1 < length [1100, 2500 :: real]" by simp
  have h3: "(1 :: nat) = 1" by simp
  note all = r_ab_p_formula [OF h1 h2, of "pi / 4" 1 "[1, 1]", unfolded Let_def]
  note single = all [THEN conjunct2, THEN conjunct1, THEN mp, OF h3]
  from all single show ?thesis unfolding Let_def by blast
qed

text \<open>
  Claim C3.  With a single interface (\<open>N = 1\<close>, the indices of the front and back
  half-spaces only) and the polarisation \<open>s\<close>, ReflectionCoeff returns at every wavelength
  the two-medium Fresnel coefficient \<open>(kz0 - kz1) / (kz0 + kz1)\<close>, whatever the incidence
  angle, the sweep and the thickness array.
\<close>

theorem single_interface_fresnel:
  "ReflectionCoeff 1 [n0, n1] d lbda_list incidence_angle ''s'' =
     Inr (map (\<lambda>l. (kz_entry (Kx_of n0 incidence_angle) n0 l - kz_entry (Kx_of n0 incidence_angle) n1 l)
                   / (kz_entry (Kx_of n0 incidence_angle) n0 l + kz_entry (Kx_of n0 incidence_angle) n1 l))
              lbda_list)"
proof -
  let ?Kx = "Kx_of n0 incidence_angle"
  let ?kz = "kz_of [n0, n1] lbda_list ?Kx"
  have "ReflectionCoeff 1 [n0, n1] d lbda_list incidence_angle ''s'' = U 1 (Some (r_ab_s ?kz)) ?kz d 0"
    using ReflectionCoeff_unfold [of "[n0, n1]" 1 d lbda_list incidence_angle "''s''"]
    by (simp add: r_ab_of_def)
  also have "\<dots> = getitem (r_ab_s ?kz) (1 - 1)" by (rule U_base) simp
  also have "\<dots> = Inr (r_ab_s ?kz ! 0)" by (simp add: getitem_def length_r_ab_s length_kz_of)
  also have "r_ab_s ?kz ! 0 =
      map (\<lambda>l. (kz_entry ?Kx n0 l - kz_entry ?Kx n1 l) / (kz_entry ?Kx n0 l + kz_entry ?Kx n1 l)) lbda_list"
    by (simp add: r_ab_s_def kz_of_def zip_map_map zip_same_conv_map)
  finally show ?thesis .
qed

text \<open>
  Claim C9.  For a polarisation string other than \<open>s\<close> and \<open>p\<close> no branch binds \<open>r_ab\<close>,
  and ReflectionCoeff does not return a row: the NameError raised by the first read of
  \<open>r_ab\<close> in \<open>U(0)\<close> is its outcome (an IndexError from \<open>n[0]\<close> comes first when \<open>n\<close> is
  empty).
\<close>

theorem unsupported_polarisation:
  assumes "polarisation \<noteq> ''s''" and "polarisation \<noteq> ''p''"
  shows "r_ab_of polarisation kz n = None \<and>
         ReflectionCoeff N n d lbda_list incidence_angle polarisation =
           Inl (if n = [] then IndexError else NameError)"
  using assms by (simp add: r_ab_of_def ReflectionCoeff_def getitem_def Let_def U_unbound)

theorem unsupported_polarisation_witness:
  "r_ab_of ''sp'' [] [1, 2] = None \<and>
   ReflectionCoeff 1 [1, 2] [1, 1] [1550] 0 ''sp'' = Inl NameError"
proof -
  have h1: "''sp'' \<noteq> ''s''" by simp
  have h2: "''sp'' \<noteq> ''p''" by simp
  show ?thesis
    using unsupported_polarisation [OF h1 h2, of "[]" "[1, 2]" 1 "[1, 1]" "[1550]" 0] by simp
qed

text \<open>
  Claim C10.  For \<open>k < N\<close> the evaluation of \<open>U(k)\<close> returns a row, and it does so with
  exactly \<open>N - 1 - k\<close> nested recursive calls: a call stack of \<open>N - k\<close> frames (the call
  itself and \<open>N - 1 - k\<close> recursive ones, each at the next index, down to the base case at
  \<open>N - 1\<close>) yields the result, and no smaller stack does.  Both calls \<open>U(p)\<close> of a level
  go through the same indices.
\<close>

theorem U_reaches_base_case:
  assumes "length n = N + 1" and "length d = N + 1"
    and "polarisation = ''s'' \<or> polarisation = ''p''" and "k < N"
  shows "let kz = kz_of n lbda_list (Kx_of (n ! 0) incidence_angle);
             r_ab = r_ab_of polarisation kz n
         in (\<exists>u. U N r_ab kz d k = Inr u \<and> U_fuel (Suc (N - 1 - k)) N r_ab kz d k = Some (Inr u)) \<and>
            (\<forall>fuel\<le>N - 1 - k. U_fuel fuel N r_ab kz d k = None)"
proof -
  let ?kz = "kz_of n lbda_list (Kx_of (n ! 0) incidence_angle)"
  let ?W = "length lbda_list"
  obtain r where r: "r_ab_of polarisation ?kz n = Some r" and lr: "length r = N"
    and rrows: "\<forall>p<N. length (r ! p) = ?W"
    using r_ab_shape [OF assms(1,3)] by blast
  have lk: "length ?kz = N + 1" using assms(1) by (simp add: length_kz_of)
  have krows: "\<forall>p\<le>N. length (?kz ! p) = ?W"
    using assms(1) by (simp add: length_kz_row)
  from U_value [OF lr lk assms(2) rrows krows assms(4)] obtain u
    where u: "U N (Some r) ?kz d k = Inr u" by blast
  have fuel: "Suc (N - 1 - k) = N - k" using assms(4) by simp
  have "U_fuel (Suc (N - 1 - k)) N (Some r) ?kz d k = Some (Inr u)"
    unfolding fuel using U_fuel_enough [OF lr assms(4)] u by simp
  moreover have "\<forall>fuel\<le>N - 1 - k. U_fuel fuel N (Some r) ?kz d k = None"
  proof (intro allI impI)
    fix fuel assume "fuel \<le> N - 1 - k"
    with assms(4) have "fuel + k < N" by simp
    then show "U_fuel fuel N (Some r) ?kz d k = None" by (rule U_fuel_short [OF lr])
  qed
  ultimately show ?thesis unfolding Let_def r using u by blast
qed

theorem U_reaches_base_case_witness:
  "let kz = kz_of [1, 2, 3, 4] [1550] (Kx_of ([1, 2, 3, 4] ! 0) 0);
       r_ab = r_ab_of ''s'' kz [1, 2, 3, 4]
   in (\<exists>u. U 3 r_ab kz [1, 1, 1, 1] 0 = Inr u \<and>
            U_fuel (Suc (3 - 1 - 0)) 3 r_ab kz [1, 1, 1, 1] 0 = Some (Inr u)) \<and>
      (\<forall>fuel\<le>3 - 1 - 0. U_fuel fuel 3 r_ab kz [1, 1, 1, 1] 0 = None)"
proof -
  have h1: "length [1, 2, 3, 4 :: complex] = 3 + 1" by simp
  have h2: "length [1, 1, 1, 1 :: real] = 3 + 1" by simp
  have h3: "''s'' = ''s'' \<or> ''s'' = ''p''" by simp
  have h4: "(0::nat) < 3" by simp
  show ?thesis by (rule U_reaches_base_case [OF h1 h2 h3 h4])
qed

section \<open>Properties of the profile and plot utility\<close>

lemma foldl_append_concat: "foldl (@) acc xss = acc @ concat xss"
  by (induction xss arbitrary: acc) simp_all

lemma py_sum_concat: "py_sum xss = concat xss"
  by (simp add: py_sum_def foldl_append_concat)

lemma getPermittivityProfile_concat:
  "getPermittivityProfile structure lbda unit =
     (PInf, getTensor (material (frontHalfSpace structure)) lbda unit)
     # concat (map (\<lambda>L. layer_getPermittivityProfile L lbda unit) (layers structure))
     @ [(PInf, getTensor (material (backHalfSpace structure)) lbda unit)]"
  by (simp add: getPermittivityProfile_def py_sum_concat Let_def)

lemma length_concat_layers:
  "length (concat (map (\<lambda>L. layer_getPermittivityProfile L lbda unit) (layers structure)))
     = finite_layer_count structure lbda unit"
  by (simp add: finite_layer_count_def length_concat comp_def)

text \<open>
  Claim C4.  getPermittivityProfile returns the front half-space entry, then the profiles of
  the layers and layer groups concatenated in order, then the back half-space entry: as
  many entries as the structure has finite layers, plus two, the first and the last with
  the thickness \<open>float('inf')\<close>.
\<close>

theorem getPermittivityProfile_entries:
  "getPermittivityProfile structure lbda unit =
     (PInf, getTensor (material (frontHalfSpace structure)) lbda unit)
     # concat (map (\<lambda>L. layer_getPermittivityProfile L lbda unit) (layers structure))
     @ [(PInf, getTensor (material (backHalfSpace structure)) lbda unit)] \<and>
   length (getPermittivityProfile structure lbda unit) = finite_layer_count structure lbda unit + 2 \<and>
   hd (getPermittivityProfile structure lbda unit)
     = (PInf, getTensor (material (frontHalfSpace structure)) lbda unit) \<and>
   last (getPermittivityProfile structure lbda unit)
     = (PInf, getTensor (material (backHalfSpace structure)) lbda unit)"
  by (simp add: getPermittivityProfile_concat length_concat_layers)

lemma getIndexProfile_map:
  "getIndexProfile structure lbda unit v =
     map (\<lambda>(h, eps). (h, csqrt (quad_form v eps))) (getPermittivityProfile structure lbda unit)"
  by (simp add: getIndexProfile_def Let_def zip_map_map zip_same_conv_map case_prod_unfold)

lemma quad_form_e_x_isotropic: "quad_form e_x (isotropic_tensor index) = index\<^sup>2"
  by (simp add: e_x_def isotropic_tensor_def)

lemma Re_csqrt_nonneg: "0 \<le> Re (csqrt z)"
  using abs_Re_le_cmod [of z] by simp

text \<open>
  Claim C5, amended.  Entry by entry, the scalar of the index profile is the complex square
  root with non-negative real part of \<open>v\<^sup>T \<epsilon> v\<close>.  For an isotropic tensor \<open>index\<^sup>2\<close> times the
  identity and the default direction it is the material's own index when that index has a
  positive real part, or a zero real part and a non-negative imaginary part.
\<close>

theorem getIndexProfile_isotropic:
  assumes "i < length (getPermittivityProfile structure lbda unit)"
    and "getPermittivityProfile structure lbda unit ! i = (h, eps)"
  shows "getIndexProfile structure lbda unit v ! i = (h, csqrt (quad_form v eps)) \<and>
         0 \<le> Re (csqrt (quad_form v eps)) \<and>
         (eps = isotropic_tensor index \<and> (0 < Re index \<or> (Re index = 0 \<and> 0 \<le> Im index))
            \<longrightarrow> getIndexProfile structure lbda unit e_x ! i = (h, index))"
proof -
  have entry: "\<And>w. getIndexProfile structure lbda unit w ! i = (h, csqrt (quad_form w eps))"
    using assms by (simp add: getIndexProfile_map)
  have "getIndexProfile structure lbda unit e_x ! i = (h, index)"
    if "eps = isotropic_tensor index" and "0 < Re index \<or> (Re index = 0 \<and> 0 \<le> Im index)"
  proof -
    have "csqrt (index\<^sup>2) = index" using that(2) by (rule csqrt_square)
    with entry [of e_x] that(1) show ?thesis by (simp add: quad_form_e_x_isotropic)
  qed
  with entry [of v] Re_csqrt_nonneg [of "quad_form v eps"] show ?thesis by blast
qed

theorem getIndexProfile_isotropic_witness:
  "getIndexProfile
     (Structure (IsotropicMaterial 1) [Layer (IsotropicMaterial (Complex (223 / 100) (52 / 100000))) 3]
        (IsotropicMaterial (3 / 2)))
     1000 ''nm'' e_x ! 1
   = (Fin 3, Complex (223 / 100) (52 / 100000))"
proof -
  let ?S = "Structure (IsotropicMaterial 1) [Layer (IsotropicMaterial (Complex (223 / 100) (52 / 100000))) 3]
        (IsotropicMaterial (3 / 2))"
  have P: "getPermittivityProfile ?S 1000 ''nm'' =
             [(PInf, isotropic_tensor 1),
              (Fin 3, isotropic_tensor (Complex (223 / 100) (52 / 100000))),
              (PInf, isotropic_tensor (3 / 2))]"
    by (simp add: getPermittivityProfile_def py_sum_def Structure_def Layer_def IsotropicMaterial_def)
  have h1: "1 < length (getPermittivityProfile ?S 1000 ''nm'')" by (subst P) simp
  have h2: "getPermittivityProfile ?S 1000 ''nm'' ! 1
              = (Fin 3, isotropic_tensor (Complex (223 / 100) (52 / 100000)))"
    by (subst P) simp
  show ?thesis
    using getIndexProfile_isotropic [OF h1 h2, of e_x "Complex (223 / 100) (52 / 100000)",
        THEN conjunct2, THEN conjunct2]
    by simp
qed

text \<open>
  The claim C5 as stated, for every isotropic material, fails for an index with a negative
  real part: a front half-space of index \<open>-1\<close> has the tensor \<open>(-1)\<^sup>2\<close> times the identity, and
  its entry of the index profile is \<open>1\<close>.
\<close>

theorem getIndexProfile_negative_index_counterexample:
  "getPermittivityProfile (Structure (IsotropicMaterial (- 1)) [] (IsotropicMaterial 1)) 1000 ''nm'' ! 0
     = (PInf, isotropic_tensor (- 1)) \<and>
   getIndexProfile (Structure (IsotropicMaterial (- 1)) [] (IsotropicMaterial 1)) 1000 ''nm'' e_x ! 0
     = (PInf, 1) \<and>
   (1 :: complex) \<noteq> - 1"
  by (simp add: getIndexProfile_def getPermittivityProfile_def py_sum_def Structure_def
      IsotropicMaterial_def isotropic_tensor_def e_x_def)

text \<open>
  Claim C6.  For a method other than \<open>graph\<close> and \<open>section\<close>, drawStructure returns \<open>None\<close>
  and raises nothing, whatever the structure, wavelength, unit and margin.
\<close>

theorem drawStructure_unknown_method:
  assumes "method \<noteq> ''graph''" and "method \<noteq> ''section''"
  shows "drawStructure structure lbda unit method margin = Inr None"
  using assms by (simp add: drawStructure_def Let_def)

theorem drawStructure_unknown_method_witness:
  "drawStructure (Structure (IsotropicMaterial 1) [Layer (IsotropicMaterial 2) 3] (IsotropicMaterial (3 / 2)))
     1000 ''nm'' ''contour'' default_margin = Inr None"
proof -
  have h1: "''contour'' \<noteq> ''graph''" by simp
  have h2: "''contour'' \<noteq> ''section''" by simp
  show ?thesis by (rule drawStructure_unknown_method [OF h1 h2])
qed

subsection \<open>The depth axis of drawStructure\<close>

lemma thicknesses_of_profile:
  "map fst (getIndexProfile structure lbda unit v) =
     PInf # map fst (concat (map (\<lambda>L. layer_getPermittivityProfile L lbda unit) (layers structure)))
     @ [PInf]"
  by (simp add: getIndexProfile_map getPermittivityProfile_concat comp_def case_prod_unfold)

lemma indices_of_profile_nonempty: "map snd (getIndexProfile structure lbda unit v) \<noteq> []"
  by (simp add: getIndexProfile_map getPermittivityProfile_concat)

lemma z_layers_of_profile: "z_layers_of (PInf # hs @ [PInf]) = Fin 0 # cumsum hs"
  by (simp add: z_layers_of_def butlast_append)

lemma cumsum_Fin: "cumsum (map Fin ts) = cumsum_from (Fin 0) (map Fin ts)"
  by (cases ts) (simp_all add: cumsum_def)

lemma last_cumsum_from:
  "last (Fin a # cumsum_from (Fin a) (map Fin ts)) = Fin (a + sum_list ts)"
proof (induction ts arbitrary: a)
  case Nil
  show ?case by simp
next
  case (Cons t ts)
  have "last (Fin a # cumsum_from (Fin a) (map Fin (t # ts)))
          = last (Fin (a + t) # cumsum_from (Fin (a + t)) (map Fin ts))"
    by simp
  also have "\<dots> = Fin (a + t + sum_list ts)" by (rule Cons.IH)
  finally show ?case by (simp add: add.assoc)
qed

lemma cumsum_from_bounds:
  "\<forall>t\<in>set ts. 0 \<le> t \<Longrightarrow> y \<in> set (cumsum_from (Fin a) (map Fin ts)) \<Longrightarrow>
   \<exists>x. y = Fin x \<and> a \<le> x \<and> x \<le> a + sum_list ts"
proof (induction ts arbitrary: a)
  case Nil
  then show ?case by simp
next
  case (Cons t ts)
  from Cons.prems(1) have t: "0 \<le> t" and ts: "\<forall>t\<in>set ts. 0 \<le> t" by simp_all
  from ts have s: "0 \<le> sum_list ts" by (simp add: sum_list_nonneg)
  from Cons.prems(2) have "y = Fin (a + t) \<or> y \<in> set (cumsum_from (Fin (a + t)) (map Fin ts))"
    by simp
  then show ?case
  proof
    assume "y = Fin (a + t)"
    with t s show ?thesis by simp
  next
    assume "y \<in> set (cumsum_from (Fin (a + t)) (map Fin ts))"
    from Cons.IH [OF ts this] obtain x
      where "y = Fin x" "a + t \<le> x" "x \<le> a + t + sum_list ts" by blast
    with t show ?thesis by simp
  qed
qed

lemma foldl_fl_min_lower:
  "\<forall>y\<in>set ys. \<exists>x. y = Fin x \<and> lo \<le> x \<Longrightarrow> foldl fl_min (Fin lo) ys = Fin lo"
  by (induction ys) (auto simp: fl_min_def)

lemma foldl_fl_max_upper:
  "\<forall>y\<in>set ys. \<exists>x. y = Fin x \<and> x \<le> hi \<Longrightarrow> a \<le> hi \<Longrightarrow>
   foldl fl_max (Fin a) (ys @ [Fin hi]) = Fin hi"
proof (induction ys arbitrary: a)
  case Nil
  then show ?case by (simp add: fl_max_def)
next
  case (Cons y ys)
  from Cons.prems(1) obtain x where y: "y = Fin x" and x: "x \<le> hi" by auto
  have "fl_max (Fin a) y = Fin (max a x)" by (simp add: y fl_max_def max_def)
  moreover have "max a x \<le> hi" using x Cons.prems(2) by simp
  moreover have "\<forall>y\<in>set ys. \<exists>x. y = Fin x \<and> x \<le> hi" using Cons.prems(1) by simp
  ultimately show ?case using Cons.IH [of "max a x"] by simp
qed

lemma set_xlim_range:
  assumes "\<forall>y\<in>set ys. \<exists>x. y = Fin x \<and> lo \<le> x \<and> x \<le> hi" and "lo \<le> hi"
  shows "set_xlim (Fin lo # ys @ [Fin hi]) = Inr (Fin lo, Fin hi)"
proof -
  have "foldl fl_min (Fin lo) (ys @ [Fin hi]) = Fin lo"
    using assms by (intro foldl_fl_min_lower) auto
  moreover have "foldl fl_max (Fin lo) (ys @ [Fin hi]) = Fin hi"
    using assms by (intro foldl_fl_max_upper) auto
  ultimately show ?thesis
    by (simp add: set_xlim_def arr_min_def arr_max_def is_finite_def)
qed

lemma drawStructure_xlim:
  assumes "method = ''graph'' \<or> method = ''section''"
    and "set_xlim (z_of (map fst (getIndexProfile structure lbda unit e_x)) margin) = Inr limits"
  shows "\<exists>ax. drawStructure structure lbda unit method margin = Inr (Some ax) \<and> xlim ax = limits"
proof -
  obtain c cs where n: "map snd (getIndexProfile structure lbda unit e_x) = c # cs"
    using indices_of_profile_nonempty [of "structure" lbda unit e_x] by (auto simp: neq_Nil_conv)
  from assms(1) show ?thesis
  proof
    assume "method = ''graph''"
    then show ?thesis
      using assms(2) n by (simp add: drawStructure_def drawStructureGraph_def Let_def)
  next
    assume "method = ''section''"
    then show ?thesis
      using assms(2) by (simp add: drawStructure_def drawStructureSection_def Let_def)
  qed
qed

lemma z_of_no_layers: "z_of [PInf, PInf] margin = [Fin (- (1 / 10 ^ 6)), Fin 0, Fin (1 / 10 ^ 6)]"
  by (simp add: z_of_def z_layers_of_def cumsum_def z_margin_of_def Let_def)

lemma z_of_finite:
  assumes "sum_list ts \<noteq> 0"
  shows "z_of (PInf # map Fin ts @ [PInf]) (Fin m) =
           Fin (- (m * sum_list ts)) # (Fin 0 # cumsum (map Fin ts))
           @ [Fin (sum_list ts + m * sum_list ts)]"
proof -
  have "last (Fin 0 # cumsum (map Fin ts)) = Fin (sum_list ts)"
    using last_cumsum_from [of 0 ts] by (simp add: cumsum_Fin)
  then show ?thesis
    using assms by (simp add: z_of_def z_layers_of_profile z_margin_of_def Let_def)
qed

text \<open>
  Claim C7.  With a method \<open>graph\<close> or \<open>section\<close>: on a structure with no finite layer the
  depth axis has the range \<open>[-1e-6, 1e-6]\<close>, whatever the margin argument; on a structure
  whose finite thicknesses add up to \<open>D > 0\<close>, with the default margin \<open>0.15\<close>, the depth
  coordinates are \<open>-0.15 D\<close>, the interfaces from \<open>0\<close> to \<open>D\<close>, and \<open>D + 0.15 D\<close>, and when no
  thickness is negative the range of the depth axis is \<open>[-0.15 D, D + 0.15 D]\<close>.
\<close>

theorem drawStructure_depth_range:
  assumes "method = ''graph'' \<or> method = ''section''"
  shows "(finite_layer_count structure lbda unit = 0 \<longrightarrow>
            (\<exists>ax. drawStructure structure lbda unit method margin = Inr (Some ax) \<and>
                  xlim ax = (Fin (- (1 / 10 ^ 6)), Fin (1 / 10 ^ 6)))) \<and>
         (map fst (concat (map (\<lambda>L. layer_getPermittivityProfile L lbda unit) (layers structure)))
            = map Fin ts \<and> 0 < sum_list ts \<longrightarrow>
            z_of (map fst (getIndexProfile structure lbda unit e_x)) default_margin
              = Fin (- (15 / 100 * sum_list ts)) # (Fin 0 # cumsum (map Fin ts))
                @ [Fin (sum_list ts + 15 / 100 * sum_list ts)] \<and>
            last (Fin 0 # cumsum (map Fin ts)) = Fin (sum_list ts) \<and>
            ((\<forall>t\<in>set ts. 0 \<le> t) \<longrightarrow>
               (\<exists>ax. drawStructure structure lbda unit method default_margin = Inr (Some ax) \<and>
                     xlim ax = (Fin (- (15 / 100 * sum_list ts)),
                                Fin (sum_list ts + 15 / 100 * sum_list ts)))))"
proof (intro conjI impI)
  assume "finite_layer_count structure lbda unit = 0"
  then have "concat (map (\<lambda>L. layer_getPermittivityProfile L lbda unit) (layers structure)) = []"
    unfolding length_concat_layers [symmetric] by simp
  then have "map fst (getIndexProfile structure lbda unit e_x) = [PInf, PInf]"
    by (simp add: thicknesses_of_profile)
  then have "set_xlim (z_of (map fst (getIndexProfile structure lbda unit e_x)) margin)
               = Inr (Fin (- (1 / 10 ^ 6)), Fin (1 / 10 ^ 6))"
    using set_xlim_range [of "[Fin 0]" "- (1 / 10 ^ 6)" "1 / 10 ^ 6"]
    by (simp add: z_of_no_layers)
  with assms show "\<exists>ax. drawStructure structure lbda unit method margin = Inr (Some ax) \<and>
                  xlim ax = (Fin (- (1 / 10 ^ 6)), Fin (1 / 10 ^ 6))"
    by (rule drawStructure_xlim)
next
  assume a: "map fst (concat (map (\<lambda>L. layer_getPermittivityProfile L lbda unit) (layers structure)))
            = map Fin ts \<and> 0 < sum_list ts"
  then have h: "map fst (getIndexProfile structure lbda unit e_x) = PInf # map Fin ts @ [PInf]"
    by (simp add: thicknesses_of_profile)
  from a have D: "sum_list ts \<noteq> 0" by simp
  show z: "z_of (map fst (getIndexProfile structure lbda unit e_x)) default_margin
              = Fin (- (15 / 100 * sum_list ts)) # (Fin 0 # cumsum (map Fin ts))
                @ [Fin (sum_list ts + 15 / 100 * sum_list ts)]"
    unfolding h default_margin_def by (rule z_of_finite [OF D])
  show "last (Fin 0 # cumsum (map Fin ts)) = Fin (sum_list ts)"
    using last_cumsum_from [of 0 ts] by (simp add: cumsum_Fin)
  assume nonneg: "\<forall>t\<in>set ts. 0 \<le> t"
  let ?D = "sum_list ts"
  have inner: "\<forall>y\<in>set (Fin 0 # cumsum (map Fin ts)).
                 \<exists>x. y = Fin x \<and> - (15 / 100 * ?D) \<le> x \<and> x \<le> ?D + 15 / 100 * ?D"
  proof
    fix y assume "y \<in> set (Fin 0 # cumsum (map Fin ts))"
    then have "y = Fin 0 \<or> y \<in> set (cumsum_from (Fin 0) (map Fin ts))"
      by (simp add: cumsum_Fin)
    then obtain x where "y = Fin x" "0 \<le> x" "x \<le> ?D"
      using cumsum_from_bounds [OF nonneg, of y 0] a by auto
    with a show "\<exists>x. y = Fin x \<and> - (15 / 100 * ?D) \<le> x \<and> x \<le> ?D + 15 / 100 * ?D"
      by simp
  qed
  have "- (15 / 100 * ?D) \<le> ?D + 15 / 100 * ?D" using a by simp
  with inner have "set_xlim (z_of (map fst (getIndexProfile structure lbda unit e_x)) default_margin)
          = Inr (Fin (- (15 / 100 * ?D)), Fin (?D + 15 / 100 * ?D))"
    unfolding z by (rule set_xlim_range)
  with assms show "\<exists>ax. drawStructure structure lbda unit method default_margin = Inr (Some ax) \<and>
                     xlim ax = (Fin (- (15 / 100 * ?D)), Fin (?D + 15 / 100 * ?D))"
    by (rule drawStructure_xlim)
qed

theorem drawStructure_depth_range_witness:
  "(\<exists>ax. drawStructure (Structure (IsotropicMaterial 1) [] (IsotropicMaterial (3 / 2)))
            1000 ''nm'' ''graph'' default_margin = Inr (Some ax) \<and>
         xlim ax = (Fin (- (1 / 10 ^ 6)), Fin (1 / 10 ^ 6))) \<and>
   (\<exists>ax. drawStructure
            (Structure (IsotropicMaterial 1)
               [Layer (IsotropicMaterial 2) 3, Layer (IsotropicMaterial 3) 4] (IsotropicMaterial (3 / 2)))
            1000 ''nm'' ''section'' default_margin = Inr (Some ax) \<and>
         xlim ax = (Fin (- (21 / 20)), Fin (161 / 20)))"
proof -
  let ?S0 = "Structure (IsotropicMaterial 1) [] (IsotropicMaterial (3 / 2))"
  let ?S2 = "Structure (IsotropicMaterial 1)
               [Layer (IsotropicMaterial 2) 3, Layer (IsotropicMaterial 3) 4] (IsotropicMaterial (3 / 2))"
  have g: "''graph'' = ''graph'' \<or> ''graph'' = ''section''" by simp
  have s: "''section'' = ''graph'' \<or> ''section'' = ''section''" by simp
  have c0: "finite_layer_count ?S0 1000 ''nm'' = 0"
    by (simp add: finite_layer_count_def Structure_def)
  have c2: "map fst (concat (map (\<lambda>L. layer_getPermittivityProfile L 1000 ''nm'') (layers ?S2)))
              = map Fin [3, 4] \<and> 0 < sum_list [3, 4 :: real]"
    by (simp add: Structure_def Layer_def)
  have nn: "\<forall>t\<in>set [3, 4 :: real]. 0 \<le> t" by simp
  note bare = drawStructure_depth_range [OF g, of ?S0 1000 "''nm''" default_margin "[]",
      THEN conjunct1, THEN mp, OF c0]
  note stack = drawStructure_depth_range [OF s, of ?S2 1000 "''nm''" default_margin "[3, 4]",
      THEN conjunct2, THEN mp, OF c2, THEN conjunct2, THEN conjunct2, THEN mp, OF nn]
  from bare stack show ?thesis by simp
qed

section \<open>Properties of the comparison chart\<close>

text \<open>
  The claim C8 as stated fails on the script: the fourth line of the chart is the analytic
  curve \<open>R_th_ss_0\<close> and is not a line plot, and the first is the solver's \<open>R_ss_0\<close> and is
  not drawn as marker points.
\<close>

theorem chart_styles_counterexample:
  "ydata (comparison_chart [1100, 2500] ! 3) = R_th_ss_0 \<and>
   origin_of (ydata (comparison_chart [1100, 2500] ! 3)) = Analytic \<and>
   \<not> is_line_plot (comparison_chart [1100, 2500] ! 3) \<and>
   ydata (comparison_chart [1100, 2500] ! 0) = R_ss_0 \<and>
   origin_of (ydata (comparison_chart [1100, 2500] ! 0)) = Solver \<and>
   \<not> is_marker_points (comparison_chart [1100, 2500] ! 0)"
  by (simp add: comparison_chart_def plot_def fmt_style_def is_line_plot_def is_marker_points_def)

text \<open>
  Claim C8, amended.  The chart overlays six curves against the wavelengths of the sweep:
  the three solver-derived ones (\<open>R_ss\<close> at 0 and 45 degrees, \<open>R_pp\<close> at 45 degrees) as line
  plots, and the three analytic ones (\<open>R_th_ss\<close> at 0 and 45 degrees, \<open>R_th_pp\<close> at 45
  degrees) as \<open>x\<close> marker points.
\<close>

theorem comparison_chart_styles:
  "map (\<lambda>l. (ydata l, origin_of (ydata l), is_line_plot l, is_marker_points l))
       (comparison_chart lbda_list)
     = [(R_ss_0, Solver, True, False), (R_ss, Solver, True, False), (R_pp, Solver, True, False),
        (R_th_ss_0, Analytic, False, True), (R_th_ss, Analytic, False, True),
        (R_th_pp, Analytic, False, True)] \<and>
   map xdata (comparison_chart lbda_list) = replicate 6 lbda_list \<and>
   map marker (plot lbda_list [R_th_ss_0, R_th_ss, R_th_pp] (Some ''x'')) = replicate 3 ''x''"
  by (simp add: comparison_chart_def plot_def fmt_style_def is_line_plot_def is_marker_points_def
      numeral_3_eq_3 eval_nat_numeral)

end
